theory Spec2Isabelle
  imports Complex_Main
begin

section \<open>Values, errors and the outside world\<close>

text \<open>
  The notebook \<^verbatim>\<open>notebooks/integrating_auth_mast_service.ipynb\<close> holds a handful of
  Django view functions and two decorators. Its values are Python values decoded from
  JSON, its failures are Python exceptions, and its effects are outbound HTTP calls and
  operations on the outgoing \<^verbatim>\<open>HttpResponse\<close>.
\<close>

datatype pyfloat = Finite rat | PosInf | NegInf | NaN

text \<open>A decoded JSON value. \<open>JObj\<close> lists the items of a \<^verbatim>\<open>dict\<close> (keys distinct).\<close>

datatype json =
    JNull
  | JBool bool
  | JInt int
  | JFloat pyfloat
  | JStr string
  | JArr "json list"
  | JObj "(string \<times> json) list"

datatype error =
    NameError string
  | KeyError string
  | TypeError
  | JSONDecodeError
  | ConnectionError
  | OAuthError

text \<open>\<^verbatim>\<open>d[key]\<close> with a string key: only a \<^verbatim>\<open>dict\<close> holding the key answers.\<close>

fun py_getitem :: "json \<Rightarrow> string \<Rightarrow> error + json" where
  "py_getitem (JObj kvs) k = (case map_of kvs k of None \<Rightarrow> Inl (KeyError k) | Some v \<Rightarrow> Inr v)"
| "py_getitem _ k = Inl TypeError"

text \<open>The truth value Python gives a value in \<^verbatim>\<open>if v:\<close>.\<close>

fun truthy :: "json \<Rightarrow> bool" where
  "truthy JNull = False"
| "truthy (JBool b) = b"
| "truthy (JInt i) = (i \<noteq> 0)"
| "truthy (JFloat f) = (f \<noteq> Finite 0)"
| "truthy (JStr s) = (s \<noteq> [])"
| "truthy (JArr xs) = (xs \<noteq> [])"
| "truthy (JObj kvs) = (kvs \<noteq> [])"

text \<open>The part of Django's \<^verbatim>\<open>HttpRequest\<close> the views read.\<close>

record request =
  COOKIES :: "string \<rightharpoonup> string"
  GET :: "string \<rightharpoonup> string"

text \<open>An outbound HTTP call, and what comes back from \<^verbatim>\<open>requests.get\<close>.\<close>

record http_call =
  verb :: string
  url :: string
  headers :: "(string \<times> string) list"

record http_reply =
  status_code :: nat
  json_body :: "json option"  \<comment> \<open>\<open>None\<close>: the body does not decode as JSON\<close>

text \<open>
  The remote provider: its answer to a call of the info endpoint (or the exception
  \<^verbatim>\<open>requests.get\<close> raises), and its answer to a token exchange for a callback request.
\<close>

record provider =
  info_answer :: "http_call \<Rightarrow> error + http_reply"
  token_answer :: "request \<Rightarrow> error + json"

text \<open>
  A computation threads the list of outbound calls made so far and either raises or
  returns.
\<close>

type_synonym 'a io = "http_call list \<Rightarrow> (error + 'a) \<times> http_call list"

definition requests_get :: "provider \<Rightarrow> string \<Rightarrow> (string \<times> string) list \<Rightarrow> http_reply io" where
  "requests_get p u hs sent =
     (let c = \<lparr>verb = ''GET'', url = u, headers = hs\<rparr> in (info_answer p c, sent @ [c]))"

definition response_json :: "http_reply \<Rightarrow> error + json" where
  "response_json r = (case json_body r of None \<Rightarrow> Inl JSONDecodeError | Some j \<Rightarrow> Inr j)"

text \<open>
  The outgoing \<^verbatim>\<open>HttpResponse\<close>: what it carries, and the cookie calls made on it in
  order. \<open>SetCookie\<close> keeps the key, the value and the keyword arguments of
  \<^verbatim>\<open>set_cookie\<close>; \<open>DeleteCookie\<close> the key of \<^verbatim>\<open>delete_cookie\<close>.
\<close>

datatype cookie_op =
    SetCookie string json "(string \<times> json) list"
  | DeleteCookie string

datatype content =
    Redirect string "(string \<times> string) list"  \<comment> \<open>target and query parameters\<close>
  | Page string "(string \<times> json) list"  \<comment> \<open>template and context\<close>

record response =
  content :: content
  cookie_ops :: "cookie_op list"

definition redirect :: "string \<Rightarrow> response" where
  "redirect target = \<lparr>content = Redirect target [], cookie_ops = []\<rparr>"

definition render :: "request \<Rightarrow> string \<Rightarrow> (string \<times> json) list \<Rightarrow> response" where
  "render req template ctx = \<lparr>content = Page template ctx, cookie_ops = []\<rparr>"

definition set_cookie :: "response \<Rightarrow> string \<Rightarrow> json \<Rightarrow> (string \<times> json) list \<Rightarrow> response" where
  "set_cookie r k v args = r\<lparr>cookie_ops := cookie_ops r @ [SetCookie k v args]\<rparr>"

definition delete_cookie :: "response \<Rightarrow> string \<Rightarrow> response" where
  "delete_cookie r k = r\<lparr>cookie_ops := cookie_ops r @ [DeleteCookie k]\<rparr>"

section \<open>Module globals and the client registration\<close>

definition client_id :: string where "client_id = ''''"
definition client_secret :: string where "client_secret = ''''"
definition auth_mast :: string where "auth_mast = ''auth.mast.stsci.edu''"
definition base_url :: string where "base_url = ''https://myapp.stsci.edu''"

record oauth_client =
  reg_name :: string
  reg_client_id :: string
  reg_client_secret :: string
  access_token_url :: string
  authorize_url :: string
  api_base_url :: string
  client_kwargs :: "(string \<times> string) list"

definition register_oauth :: oauth_client where
  "register_oauth =
     \<lparr>reg_name = ''mast_auth'',
      reg_client_id = client_id,
      reg_client_secret = client_secret,
      access_token_url = ''https://'' @ auth_mast @ ''/oauth/access_token?client_secret='' @ client_secret,
      authorize_url = ''https://'' @ auth_mast @ ''/oauth/authorize'',
      api_base_url = ''https://'' @ auth_mast @ ''/1.1/'',
      client_kwargs = [(''scope'', ''mast:user:info'')]\<rparr>"

definition MY_APP_OAUTH :: oauth_client where
  "MY_APP_OAUTH = register_oauth"

text \<open>
  The names the notebook's cells bind at module level: its imports, its assignments and
  its function definitions. A function body that loads any other global name raises
  \<^verbatim>\<open>NameError\<close> when it runs.
\<close>

definition notebook_names :: "string list" where
  "notebook_names =
     [''requests'', ''OAuth'', ''redirect'', ''render'', ''path'',
      ''client_id'', ''client_secret'', ''auth_mast'', ''base_url'',
      ''register_oauth'', ''MY_APP_OAUTH'', ''auth_info'', ''auth_required'',
      ''urlpatterns'', ''auth_urlpatterns'',
      ''authorize'', ''login'', ''logout'', ''some_webpage'']"

definition load_global :: "string list \<Rightarrow> string \<Rightarrow> error + unit" where
  "load_global names n = (if n \<in> set names then Inr () else Inl (NameError n))"

text \<open>\<^verbatim>\<open>os.path.join\<close> of two components (POSIX).\<close>

definition path_join :: "string \<Rightarrow> string \<Rightarrow> string" where
  "path_join a b =
     (if take 1 b = ''/'' then b
      else if a = [] \<or> last a = CHR ''/'' then a @ b
      else a @ ''/'' @ b)"

text \<open>
  Modelled from the spec: authlib's \<^verbatim>\<open>authorize_redirect\<close> is not part of the notebook.
  It answers with a redirect to the provider's authorize endpoint that carries the
  callback URL, and makes no outbound call.
\<close>

definition authorize_redirect :: "oauth_client \<Rightarrow> request \<Rightarrow> string \<Rightarrow> response io" where
  "authorize_redirect c req redirect_uri sent =
     (Inr \<lparr>content = Redirect (authorize_url c) [(''redirect_uri'', redirect_uri)],
           cookie_ops = []\<rparr>, sent)"

text \<open>
  Modelled from the spec: authlib's \<^verbatim>\<open>authorize_access_token\<close> is not part of the
  notebook. It performs the token exchange call to the provider and returns the token
  record, or raises.
\<close>

definition authorize_access_token ::
  "provider \<Rightarrow> oauth_client \<Rightarrow> request \<Rightarrow> (string \<times> string) list \<Rightarrow> json io" where
  "authorize_access_token p c req hs sent =
     (token_answer p req, sent @ [\<lparr>verb = ''POST'', url = access_token_url c, headers = hs\<rparr>])"

section \<open>The decorators\<close>

text \<open>
  A decorated function is called as \<^verbatim>\<open>fn(request, user, **kwargs)\<close>; a handler given to
  \<^verbatim>\<open>auth_required\<close> is called as \<^verbatim>\<open>fn(request, user)\<close>.
\<close>

type_synonym kwargs = "(string \<times> string) list"
type_synonym view = "request \<Rightarrow> json \<Rightarrow> kwargs \<Rightarrow> response io"
type_synonym handler = "request \<Rightarrow> json \<Rightarrow> response io"

definition anon_record :: json where
  "anon_record = JObj [(''ezid'', JNull), (''anon'', JBool True)]"

text \<open>\<^verbatim>\<open>auth_info(fn)\<close>: the inner \<^verbatim>\<open>user_info(request, **kwargs)\<close>.\<close>

definition auth_info :: "provider \<Rightarrow> view \<Rightarrow> request \<Rightarrow> kwargs \<Rightarrow> response io" where
  "auth_info p fn req kw sent =
     (case COOKIES req ''ASB-AUTH'' of
        Some cookie \<Rightarrow>
          (case requests_get p (''https://'' @ auth_mast @ ''/info'')
                  [(''Accept'', ''application/json''), (''Authorization'', ''token '' @ cookie)] sent of
             (Inl e, sent') \<Rightarrow> (Inl e, sent')
           | (Inr reply, sent') \<Rightarrow>
               (case response_json reply of
                  Inl e \<Rightarrow> (Inl e, sent')
                | Inr user \<Rightarrow> fn req user kw sent'))
      | None \<Rightarrow> fn req anon_record kw sent)"

text \<open>The inner \<^verbatim>\<open>check_auth(request, user)\<close> of \<^verbatim>\<open>auth_required(fn)\<close>, before decoration.\<close>

definition check_auth :: "string list \<Rightarrow> handler \<Rightarrow> request \<Rightarrow> json \<Rightarrow> response io" where
  "check_auth names fn req user sent =
     (case py_getitem user ''anon'' of
        Inl e \<Rightarrow> (Inl e, sent)
      | Inr a \<Rightarrow>
          if truthy a then
            (case load_global names ''os'' of
               Inl e \<Rightarrow> (Inl e, sent)
             | Inr _ \<Rightarrow> authorize_redirect MY_APP_OAUTH req (path_join base_url ''authorize'') sent)
          else fn req user sent)"

text \<open>
  Calling a function of two positional parameters with extra keyword arguments raises
  \<^verbatim>\<open>TypeError\<close> before its body runs.
\<close>

definition positional :: "handler \<Rightarrow> view" where
  "positional h req user kw sent = (if kw = [] then h req user sent else (Inl TypeError, sent))"

definition auth_required :: "provider \<Rightarrow> string list \<Rightarrow> handler \<Rightarrow> request \<Rightarrow> kwargs \<Rightarrow> response io" where
  "auth_required p names fn = auth_info p (positional (check_auth names fn))"

section \<open>The views\<close>

definition authorize :: "provider \<Rightarrow> request \<Rightarrow> response io" where
  "authorize p req sent =
     (case authorize_access_token p MY_APP_OAUTH req [(''Accept'', ''application/json'')] sent of
        (Inl e, sent') \<Rightarrow> (Inl e, sent')
      | (Inr token, sent') \<Rightarrow>
          (let cookie_args = [(''domain'', JStr ''myapp.stsci.edu''),
                              (''secure'', JBool True),
                              (''httponly'', JBool True)];
               response = redirect ''/''
           in case py_getitem token ''access_token'' of
                Inl e \<Rightarrow> (Inl e, sent')
              | Inr v \<Rightarrow> (Inr (set_cookie response ''ASB-AUTH'' v cookie_args), sent')))"

text \<open>The body of \<^verbatim>\<open>login(request, user)\<close>, and the view the decorator makes of it.\<close>

definition login_body :: handler where
  "login_body req user sent = (Inr (redirect ''/''), sent)"

definition login :: "provider \<Rightarrow> string list \<Rightarrow> request \<Rightarrow> kwargs \<Rightarrow> response io" where
  "login p names = auth_required p names login_body"

definition logout :: "request \<Rightarrow> response io" where
  "logout req sent =
     (let response = redirect ''/'';
          response = delete_cookie response ''ASB-AUTH''
      in (Inr response, sent))"

definition some_webpage_body :: handler where
  "some_webpage_body req user sent =
     (let template = ''some_webpage.html'';
          ctx = [(''user'', user)]
      in (Inr (render req template ctx), sent))"

definition some_webpage :: "provider \<Rightarrow> request \<Rightarrow> kwargs \<Rightarrow> response io" where
  "some_webpage p = auth_info p (positional some_webpage_body)"


section \<open>Derived notions and sample inputs\<close>

text \<open>
  The HTTP GET of the provider's info endpoint that carries \<open>cookie\<close> as the bearer
  credential.
\<close>

definition info_call :: "string \<Rightarrow> http_call" where
  "info_call cookie =
     \<lparr>verb = ''GET'',
      url = ''https://auth.mast.stsci.edu/info'',
      headers = [(''Accept'', ''application/json''), (''Authorization'', ''token '' @ cookie)]\<rparr>"

text \<open>The POST of the token endpoint made during the callback.\<close>

definition token_call :: http_call where
  "token_call =
     \<lparr>verb = ''POST'',
      url = ''https://auth.mast.stsci.edu/oauth/access_token?client_secret='',
      headers = [(''Accept'', ''application/json'')]\<rparr>"

text \<open>
  What \<^verbatim>\<open>user_info\<close> has bound to \<^verbatim>\<open>response\<close> when it calls the decorated function, or
  the exception that stops it before; and the calls it has made by then.
\<close>

definition resolved_identity :: "provider \<Rightarrow> request \<Rightarrow> error + json" where
  "resolved_identity p req =
     (case COOKIES req ''ASB-AUTH'' of
        None \<Rightarrow> Inr anon_record
      | Some cookie \<Rightarrow>
          (case info_answer p (info_call cookie) of
             Inl e \<Rightarrow> Inl e
           | Inr reply \<Rightarrow> response_json reply))"

definition resolution_calls :: "request \<Rightarrow> http_call list" where
  "resolution_calls req =
     (case COOKIES req ''ASB-AUTH'' of None \<Rightarrow> [] | Some cookie \<Rightarrow> [info_call cookie])"

text \<open>
  The two statements of the anonymous branch of \<^verbatim>\<open>check_auth\<close>, on their own: what the
  gate does for a caller it requires to log in.
\<close>

definition require_login :: "string list \<Rightarrow> request \<Rightarrow> response io" where
  "require_login names req sent =
     (case load_global names ''os'' of
        Inl e \<Rightarrow> (Inl e, sent)
      | Inr _ \<Rightarrow> authorize_redirect MY_APP_OAUTH req (path_join base_url ''authorize'') sent)"

text \<open>
  Whether \<^verbatim>\<open>check_auth\<close> sends the bearer of an identity record to log in, observed by
  running it in front of the body of \<^verbatim>\<open>some_webpage\<close>: that body answers with a page,
  the anonymous branch never does, and an exception of \<^verbatim>\<open>user["anon"]\<close> is neither.
\<close>

definition gate_requires_login :: "string list \<Rightarrow> request \<Rightarrow> json \<Rightarrow> bool" where
  "gate_requires_login names req user =
     (check_auth names some_webpage_body req user [] = require_login names req [])"

text \<open>
  The caller is treated as anonymous when \<^verbatim>\<open>user_info\<close> resolves an identity record and
  \<^verbatim>\<open>check_auth\<close> sends its bearer to log in.
\<close>

definition treated_anonymous :: "provider \<Rightarrow> string list \<Rightarrow> request \<Rightarrow> bool" where
  "treated_anonymous p names req =
     (case resolved_identity p req of
        Inl e \<Rightarrow> False
      | Inr user \<Rightarrow> gate_requires_login names req user)"

text \<open>
  One reading of the specification's words ``the provider rejects it'', after its
  sections on failures, which speak of non-2xx responses: the provider answers the info
  call with a status outside 2xx.
\<close>

definition provider_rejects :: "provider \<Rightarrow> string \<Rightarrow> bool" where
  "provider_rejects p cookie =
     (case info_answer p (info_call cookie) of
        Inl e \<Rightarrow> False
      | Inr reply \<Rightarrow> status_code reply < 200 \<or> 300 \<le> status_code reply)"

text \<open>Sample requests, records and providers.\<close>

definition request_without_cookie :: request where
  "request_without_cookie = \<lparr>COOKIES = Map.empty, GET = Map.empty\<rparr>"

definition request_with_cookie :: "string \<Rightarrow> request" where
  "request_with_cookie tok = \<lparr>COOKIES = [''ASB-AUTH'' \<mapsto> tok], GET = Map.empty\<rparr>"

definition callback_request :: request where
  "callback_request = \<lparr>COOKIES = Map.empty, GET = [''code'' \<mapsto> ''c0de'', ''state'' \<mapsto> ''s7''] \<rparr>"

definition known_user :: json where
  "known_user = JObj [(''ezid'', JStr ''jdoe''), (''anon'', JBool False)]"

definition unreachable_provider :: provider where
  "unreachable_provider =
     \<lparr>info_answer = (\<lambda>c. Inl ConnectionError), token_answer = (\<lambda>r. Inl OAuthError)\<rparr>"

definition answering_provider :: "http_reply \<Rightarrow> json \<Rightarrow> provider" where
  "answering_provider reply token =
     \<lparr>info_answer = (\<lambda>c. Inr reply), token_answer = (\<lambda>r. Inr token)\<rparr>"

definition rejection :: http_reply where
  "rejection = \<lparr>status_code = 401, json_body = Some (JObj [(''error'', JStr ''invalid token'')])\<rparr>"

section \<open>Basic facts\<close>

lemma auth_info_absent:
  assumes "COOKIES req ''ASB-AUTH'' = None"
  shows "auth_info p fn req kw sent = fn req anon_record kw sent"
  using assms by (simp add: auth_info_def)

lemma auth_info_present:
  assumes "COOKIES req ''ASB-AUTH'' = Some c"
  shows "auth_info p fn req kw sent =
     (case info_answer p (info_call c) of
        Inl e \<Rightarrow> (Inl e, sent @ [info_call c])
      | Inr reply \<Rightarrow>
          (case json_body reply of
             None \<Rightarrow> (Inl JSONDecodeError, sent @ [info_call c])
           | Some user \<Rightarrow> fn req user kw (sent @ [info_call c])))"
  using assms
  by (simp add: auth_info_def requests_get_def response_json_def info_call_def auth_mast_def
      split: sum.splits option.splits)

lemma auth_info_resolved:
  "auth_info p fn req kw sent =
     (case resolved_identity p req of
        Inl e \<Rightarrow> (Inl e, sent @ resolution_calls req)
      | Inr user \<Rightarrow> fn req user kw (sent @ resolution_calls req))"
proof (cases "COOKIES req ''ASB-AUTH''")
  case None
  then show ?thesis
    by (simp add: auth_info_absent resolved_identity_def resolution_calls_def)
next
  case (Some c)
  then show ?thesis
    by (simp add: auth_info_present resolved_identity_def resolution_calls_def response_json_def
        split: sum.splits option.splits)
qed

lemma check_auth_falsy:
  assumes "py_getitem user ''anon'' = Inr a" and "\<not> truthy a"
  shows "check_auth names fn req user sent = fn req user sent"
  using assms by (simp add: check_auth_def)

lemma check_auth_raises:
  assumes "py_getitem user ''anon'' = Inl e"
  shows "check_auth names fn req user sent = (Inl e, sent)"
  using assms by (simp add: check_auth_def)

lemma callback_url: "path_join base_url ''authorize'' = ''https://myapp.stsci.edu/authorize''"
  by (simp add: path_join_def base_url_def)

text \<open>
  Had the module bound the name \<^verbatim>\<open>os\<close>, the anonymous branch of \<^verbatim>\<open>check_auth\<close> would
  answer with the redirect to the authorize endpoint, whatever the handler is.
\<close>

lemma check_auth_truthy_os_bound:
  assumes "py_getitem user ''anon'' = Inr a" and "truthy a" and "''os'' \<in> set names"
  shows "check_auth names fn req user sent =
     (Inr \<lparr>content = Redirect ''https://auth.mast.stsci.edu/oauth/authorize''
                         [(''redirect_uri'', ''https://myapp.stsci.edu/authorize'')],
           cookie_ops = []\<rparr>, sent)"
  using assms
  by (simp add: check_auth_def load_global_def authorize_redirect_def callback_url
      MY_APP_OAUTH_def register_oauth_def auth_mast_def)

lemma check_auth_truthy_os_unbound:
  assumes "py_getitem user ''anon'' = Inr a" and "truthy a" and "''os'' \<notin> set names"
  shows "check_auth names fn req user sent = (Inl (NameError ''os''), sent)"
  using assms by (simp add: check_auth_def load_global_def)

lemma os_unbound: "''os'' \<notin> set notebook_names"
  by (simp add: notebook_names_def)

lemma anon_record_anon: "py_getitem anon_record ''anon'' = Inr (JBool True)"
  by (simp add: anon_record_def)


lemma py_getitem_error:
  assumes "py_getitem user k = Inl e"
  shows "e = KeyError k \<or> e = TypeError"
  using assms by (cases user) (auto split: option.splits)

lemma require_login_no_page:
  "require_login names req sent \<noteq> (Inr \<lparr>content = Page t ctx, cookie_ops = ops\<rparr>, sent')"
  by (simp add: require_login_def load_global_def authorize_redirect_def)

lemma require_login_no_getitem_error:
  assumes "py_getitem user k = Inl e"
  shows "require_login names req sent \<noteq> (Inl e, sent')"
  using py_getitem_error [OF assms]
  by (auto simp add: require_login_def load_global_def authorize_redirect_def)

lemma check_auth_truthy:
  assumes "py_getitem user ''anon'' = Inr a" and "truthy a"
  shows "check_auth names fn req user sent = require_login names req sent"
  using assms by (simp add: check_auth_def require_login_def)

lemma gate_requires_login_iff:
  "gate_requires_login names req user \<longleftrightarrow>
     (\<exists>a. py_getitem user ''anon'' = Inr a \<and> truthy a)"
proof (cases "py_getitem user ''anon''")
  case (Inl e)
  then show ?thesis
    using require_login_no_getitem_error [OF Inl, of names req "[]" "[]"]
    by (simp add: gate_requires_login_def check_auth_raises)
next
  case (Inr a)
  show ?thesis
  proof (cases "truthy a")
    case True
    then show ?thesis
      using Inr by (simp add: gate_requires_login_def check_auth_truthy)
  next
    case False
    have "check_auth names some_webpage_body req user [] = some_webpage_body req user []"
      by (rule check_auth_falsy [OF Inr False])
    then show ?thesis
      using Inr False require_login_no_page [of names req "[]" "''some_webpage.html''"
          "[(''user'', user)]" "[]" "[]"]
      by (simp add: gate_requires_login_def some_webpage_body_def render_def)
  qed
qed

section \<open>Identity resolution\<close>

text \<open>
  Claim C1. When the request's cookies hold no \<^verbatim>\<open>ASB-AUTH\<close> entry, the wrapper made by
  \<^verbatim>\<open>auth_info\<close> calls the wrapped function with the anonymous record, whose \<^verbatim>\<open>anon\<close> entry
  is \<^verbatim>\<open>True\<close>, and with the list of outbound calls as it found it: no call is made before
  the wrapped function runs.
\<close>

theorem auth_info_no_cookie_anonymous:
  assumes "COOKIES req ''ASB-AUTH'' = None"
  shows "auth_info p fn req kw sent = fn req anon_record kw sent
       \<and> py_getitem anon_record ''anon'' = Inr (JBool True)"
  using assms by (simp add: auth_info_absent anon_record_anon)

theorem auth_info_no_cookie_anonymous_witness:
  "COOKIES request_without_cookie ''ASB-AUTH'' = None
   \<and> some_webpage unreachable_provider request_without_cookie [] [] =
       (Inr \<lparr>content = Page ''some_webpage.html''
                          [(''user'', JObj [(''ezid'', JNull), (''anon'', JBool True)])],
             cookie_ops = []\<rparr>, [])"
proof -
  have h: "COOKIES request_without_cookie ''ASB-AUTH'' = None"
    by (simp add: request_without_cookie_def)
  show ?thesis
    using h auth_info_no_cookie_anonymous [OF h, of unreachable_provider
        "positional some_webpage_body" "[]" "[]"]
    by (simp add: some_webpage_def positional_def some_webpage_body_def render_def
        anon_record_def)
qed

text \<open>
  Claim C2. When the request's cookies hold an \<^verbatim>\<open>ASB-AUTH\<close> entry, the wrapper made by
  \<^verbatim>\<open>auth_info\<close> makes one HTTP GET of \<^verbatim>\<open>https://auth.mast.stsci.edu/info\<close> whose
  \<^verbatim>\<open>Authorization\<close> header is \<^verbatim>\<open>token\<close> followed by the cookie's value, and hands the
  decoded JSON answer to the wrapped function as the identity record. Where no answer
  arrives or the answer does not decode, the exception leaves the wrapper after that
  one call.
\<close>

theorem auth_info_cookie_one_info_call:
  assumes "COOKIES req ''ASB-AUTH'' = Some c"
  shows "auth_info p fn req kw sent =
     (case info_answer p \<lparr>verb = ''GET'', url = ''https://auth.mast.stsci.edu/info'',
                          headers = [(''Accept'', ''application/json''),
                                     (''Authorization'', ''token '' @ c)]\<rparr> of
        Inl e \<Rightarrow> (Inl e, sent @ [info_call c])
      | Inr reply \<Rightarrow>
          (case json_body reply of
             None \<Rightarrow> (Inl JSONDecodeError, sent @ [info_call c])
           | Some user \<Rightarrow> fn req user kw (sent @ [info_call c])))"
  using auth_info_present [OF assms] by (simp add: info_call_def)

theorem auth_info_cookie_one_info_call_witness:
  "COOKIES (request_with_cookie ''t0ken'') ''ASB-AUTH'' = Some ''t0ken''
   \<and> some_webpage (answering_provider \<lparr>status_code = 200, json_body = Some known_user\<rparr> JNull)
       (request_with_cookie ''t0ken'') [] [] =
       (Inr \<lparr>content = Page ''some_webpage.html'' [(''user'', known_user)], cookie_ops = []\<rparr>,
        [\<lparr>verb = ''GET'', url = ''https://auth.mast.stsci.edu/info'',
          headers = [(''Accept'', ''application/json''),
                     (''Authorization'', ''token t0ken'')]\<rparr>])"
proof -
  have h: "COOKIES (request_with_cookie ''t0ken'') ''ASB-AUTH'' = Some ''t0ken''"
    by (simp add: request_with_cookie_def)
  show ?thesis
    using h auth_info_cookie_one_info_call [OF h,
        of "answering_provider \<lparr>status_code = 200, json_body = Some known_user\<rparr> JNull"
        "positional some_webpage_body" "[]" "[]"]
    by (simp add: some_webpage_def positional_def some_webpage_body_def render_def
        answering_provider_def info_call_def)
qed

text \<open>
  Claim C8. Identity resolution does nothing to the response: whenever the wrapper made
  by \<^verbatim>\<open>auth_info\<close> returns a response, the wrapped function returned that very response
  for the very same request, so every cookie operation on it is the wrapped function's
  own; and when the wrapper raises before the wrapped function runs, there is no
  response at all.
\<close>

theorem auth_info_response_is_wrapped_response:
  assumes "auth_info p fn req kw sent = (Inr resp, sent')"
  shows "\<exists>user. fn req user kw (sent @ resolution_calls req) = (Inr resp, sent')"
  using assms by (auto simp add: auth_info_resolved split: sum.splits)

theorem auth_info_response_is_wrapped_response_witness:
  "some_webpage unreachable_provider request_without_cookie [] [] =
     (Inr \<lparr>content = Page ''some_webpage.html'' [(''user'', anon_record)], cookie_ops = []\<rparr>, [])
   \<and> (\<exists>user. positional some_webpage_body request_without_cookie user []
                ([] @ resolution_calls request_without_cookie) =
        (Inr \<lparr>content = Page ''some_webpage.html'' [(''user'', anon_record)],
              cookie_ops = []\<rparr>, []))"
proof -
  have h: "auth_info unreachable_provider (positional some_webpage_body)
             request_without_cookie [] [] =
           (Inr \<lparr>content = Page ''some_webpage.html'' [(''user'', anon_record)],
                 cookie_ops = []\<rparr>, [])"
    by (simp add: auth_info_def request_without_cookie_def positional_def
        some_webpage_body_def render_def)
  show ?thesis
    using h auth_info_response_is_wrapped_response [OF h] by (simp add: some_webpage_def)
qed


section \<open>The login gate\<close>

text \<open>
  Claim C3. A request with no \<^verbatim>\<open>ASB-AUTH\<close> cookie resolves to the anonymous record, so
  the gate made by \<^verbatim>\<open>auth_required\<close> enters its anonymous branch. There it evaluates
  \<^verbatim>\<open>os.path.join(base_url, 'authorize')\<close>, and the notebook never binds the name \<^verbatim>\<open>os\<close>:
  the gate raises \<^verbatim>\<open>NameError\<close> and returns no redirect. The wrapped handler is not
  invoked, and no outbound call is made.
\<close>

theorem auth_required_anonymous_name_error:
  "auth_required p notebook_names fn request_without_cookie [] sent =
     (Inl (NameError ''os''), sent)"
proof -
  have "COOKIES request_without_cookie ''ASB-AUTH'' = None"
    by (simp add: request_without_cookie_def)
  then have "auth_required p notebook_names fn request_without_cookie [] sent =
      check_auth notebook_names fn request_without_cookie anon_record sent"
    by (simp add: auth_required_def auth_info_absent positional_def)
  also have "\<dots> = (Inl (NameError ''os''), sent)"
    by (rule check_auth_truthy_os_unbound [OF anon_record_anon _ os_unbound]) simp
  finally show ?thesis .
qed

text \<open>
  Claim C4. When the provider's decoded answer to the info call is a record whose \<^verbatim>\<open>anon\<close>
  entry is \<^verbatim>\<open>False\<close>, the gate made by \<^verbatim>\<open>auth_required\<close> calls the wrapped handler with
  the request and that record, both as they are, and returns what the handler returns.
\<close>

theorem auth_required_authenticated_invokes_handler:
  assumes "COOKIES req ''ASB-AUTH'' = Some c"
    and "info_answer p (info_call c) = Inr reply"
    and "json_body reply = Some user"
    and "py_getitem user ''anon'' = Inr (JBool False)"
  shows "auth_required p names fn req [] sent = fn req user (sent @ [info_call c])
       \<and> check_auth names fn req user sent = fn req user sent"
proof -
  have gate: "check_auth names fn req user s = fn req user s" for s
    by (rule check_auth_falsy [OF assms(4)]) simp
  have "auth_required p names fn req [] sent =
      positional (check_auth names fn) req user [] (sent @ [info_call c])"
    using assms(2,3) by (simp add: auth_required_def auth_info_present [OF assms(1)])
  then show ?thesis
    by (simp add: positional_def gate)
qed

theorem auth_required_authenticated_invokes_handler_witness:
  "auth_required (answering_provider \<lparr>status_code = 200, json_body = Some known_user\<rparr> JNull)
     notebook_names some_webpage_body (request_with_cookie ''t0ken'') [] [] =
     (Inr \<lparr>content = Page ''some_webpage.html'' [(''user'', known_user)], cookie_ops = []\<rparr>,
      [info_call ''t0ken''])"
proof -
  have h1: "COOKIES (request_with_cookie ''t0ken'') ''ASB-AUTH'' = Some ''t0ken''"
    by (simp add: request_with_cookie_def)
  have h2: "info_answer (answering_provider \<lparr>status_code = 200, json_body = Some known_user\<rparr> JNull)
      (info_call ''t0ken'') = Inr \<lparr>status_code = 200, json_body = Some known_user\<rparr>"
    by (simp add: answering_provider_def)
  have h3: "json_body \<lparr>status_code = 200, json_body = Some known_user\<rparr> = Some known_user"
    by simp
  have h4: "py_getitem known_user ''anon'' = Inr (JBool False)"
    by (simp add: known_user_def)
  show ?thesis
    using auth_required_authenticated_invokes_handler [OF h1 h2 h3 h4,
        of notebook_names some_webpage_body "[]"]
    by (simp add: some_webpage_body_def render_def)
qed

text \<open>
  Claim C9. For a request that carries an \<^verbatim>\<open>ASB-AUTH\<close> cookie and gets an answer from the
  provider, the gate made by \<^verbatim>\<open>auth_required\<close> relies on the key \<^verbatim>\<open>anon\<close>: when the body
  does not decode, decodes to something other than an object, or decodes to an object
  without that key, the gate raises (\<^verbatim>\<open>JSONDecodeError\<close>, \<^verbatim>\<open>TypeError\<close>, \<^verbatim>\<open>KeyError\<close>
  in turn) after the one info call. It neither redirects nor invokes the handler.
\<close>

theorem auth_required_missing_anon_raises:
  assumes "COOKIES req ''ASB-AUTH'' = Some c"
    and "info_answer p (info_call c) = Inr reply"
    and "\<forall>kvs. json_body reply = Some (JObj kvs) \<longrightarrow> map_of kvs ''anon'' = None"
  shows "auth_required p names fn req [] sent =
     (Inl (case json_body reply of
             None \<Rightarrow> JSONDecodeError
           | Some (JObj kvs) \<Rightarrow> KeyError ''anon''
           | Some _ \<Rightarrow> TypeError),
      sent @ [info_call c])"
proof (cases "json_body reply")
  case None
  then show ?thesis
    using assms(2) by (simp add: auth_required_def auth_info_present [OF assms(1)])
next
  case (Some user)
  have "py_getitem user ''anon'' =
      Inl (case user of JObj kvs \<Rightarrow> KeyError ''anon'' | _ \<Rightarrow> TypeError)"
    using assms(3) Some by (cases user) simp_all
  then have "check_auth names fn req user (sent @ [info_call c]) =
      (Inl (case user of JObj kvs \<Rightarrow> KeyError ''anon'' | _ \<Rightarrow> TypeError), sent @ [info_call c])"
    by (rule check_auth_raises)
  then show ?thesis
    using assms(2) Some
    by (simp add: auth_required_def auth_info_present [OF assms(1)] positional_def)
qed

theorem auth_required_missing_anon_raises_witness:
  "auth_required (answering_provider rejection JNull) notebook_names some_webpage_body
     (request_with_cookie ''expired'') [] [] =
     (Inl (KeyError ''anon''), [info_call ''expired''])"
proof -
  have h1: "COOKIES (request_with_cookie ''expired'') ''ASB-AUTH'' = Some ''expired''"
    by (simp add: request_with_cookie_def)
  have h2: "info_answer (answering_provider rejection JNull) (info_call ''expired'') =
      Inr rejection"
    by (simp add: answering_provider_def)
  have h3: "\<forall>kvs. json_body rejection = Some (JObj kvs) \<longrightarrow> map_of kvs ''anon'' = None"
    by (simp add: rejection_def)
  show ?thesis
    using auth_required_missing_anon_raises [OF h1 h2 h3, of notebook_names some_webpage_body "[]"]
    by (simp add: rejection_def)
qed

text \<open>
  Claim C10. The body of the \<^verbatim>\<open>login\<close> view returns the redirect to \<^verbatim>\<open>/\<close> whatever
  identity record it is given; so for an authenticated caller (a provider record whose
  \<^verbatim>\<open>anon\<close> entry is \<^verbatim>\<open>False\<close>) the \<^verbatim>\<open>/login\<close> view answers with that redirect.
\<close>

theorem login_authenticated_redirects_home:
  assumes "COOKIES req ''ASB-AUTH'' = Some c"
    and "info_answer p (info_call c) = Inr reply"
    and "json_body reply = Some user"
    and "py_getitem user ''anon'' = Inr (JBool False)"
  shows "login p names req [] sent =
           (Inr \<lparr>content = Redirect ''/'' [], cookie_ops = []\<rparr>, sent @ [info_call c])
       \<and> (\<forall>r u s. login_body r u s = (Inr \<lparr>content = Redirect ''/'' [], cookie_ops = []\<rparr>, s))"
proof -
  have "check_auth names login_body req user s = login_body req user s" for s
    by (rule check_auth_falsy [OF assms(4)]) simp
  then show ?thesis
    using assms(2,3)
    by (simp add: login_def auth_required_def auth_info_present [OF assms(1)] positional_def
        login_body_def redirect_def)
qed

theorem login_authenticated_redirects_home_witness:
  "login (answering_provider \<lparr>status_code = 200, json_body = Some known_user\<rparr> JNull)
     notebook_names (request_with_cookie ''t0ken'') [] [] =
     (Inr \<lparr>content = Redirect ''/'' [], cookie_ops = []\<rparr>, [info_call ''t0ken''])
   \<and> login_body request_without_cookie anon_record [] =
     (Inr \<lparr>content = Redirect ''/'' [], cookie_ops = []\<rparr>, [])"
proof -
  have h1: "COOKIES (request_with_cookie ''t0ken'') ''ASB-AUTH'' = Some ''t0ken''"
    by (simp add: request_with_cookie_def)
  have h2: "info_answer (answering_provider \<lparr>status_code = 200, json_body = Some known_user\<rparr> JNull)
      (info_call ''t0ken'') = Inr \<lparr>status_code = 200, json_body = Some known_user\<rparr>"
    by (simp add: answering_provider_def)
  have h3: "json_body \<lparr>status_code = 200, json_body = Some known_user\<rparr> = Some known_user"
    by simp
  have h4: "py_getitem known_user ''anon'' = Inr (JBool False)"
    by (simp add: known_user_def)
  show ?thesis
    using login_authenticated_redirects_home [OF h1 h2 h3 h4, of notebook_names "[]"]
    by simp
qed


section \<open>Callback and logout\<close>

text \<open>
  Claim C5. When the token exchange returns a token record whose \<^verbatim>\<open>access_token\<close> entry
  is a string, the \<^verbatim>\<open>authorize\<close> view returns the redirect to \<^verbatim>\<open>/\<close> carrying one cookie
  operation: \<^verbatim>\<open>ASB-AUTH\<close> is set to that string, with \<^verbatim>\<open>secure\<close> and \<^verbatim>\<open>httponly\<close> both
  \<^verbatim>\<open>True\<close> and the domain \<^verbatim>\<open>myapp.stsci.edu\<close>. The exchange is its only outbound call.
\<close>

theorem authorize_sets_secure_cookie:
  assumes "token_answer p req = Inr token"
    and "py_getitem token ''access_token'' = Inr (JStr tok)"
  shows "authorize p req sent =
     (Inr \<lparr>content = Redirect ''/'' [],
           cookie_ops = [SetCookie ''ASB-AUTH'' (JStr tok)
                           [(''domain'', JStr ''myapp.stsci.edu''),
                            (''secure'', JBool True),
                            (''httponly'', JBool True)]]\<rparr>,
      sent @ [token_call])"
  using assms
  by (simp add: authorize_def authorize_access_token_def redirect_def set_cookie_def
      token_call_def MY_APP_OAUTH_def register_oauth_def auth_mast_def client_secret_def)

theorem authorize_sets_secure_cookie_witness:
  "authorize (answering_provider rejection (JObj [(''access_token'', JStr ''t0ken'')]))
     callback_request [] =
     (Inr \<lparr>content = Redirect ''/'' [],
           cookie_ops = [SetCookie ''ASB-AUTH'' (JStr ''t0ken'')
                           [(''domain'', JStr ''myapp.stsci.edu''),
                            (''secure'', JBool True),
                            (''httponly'', JBool True)]]\<rparr>,
      [token_call])"
proof -
  have h1: "token_answer (answering_provider rejection (JObj [(''access_token'', JStr ''t0ken'')]))
      callback_request = Inr (JObj [(''access_token'', JStr ''t0ken'')])"
    by (simp add: answering_provider_def)
  have h2: "py_getitem (JObj [(''access_token'', JStr ''t0ken'')]) ''access_token'' =
      Inr (JStr ''t0ken'')"
    by simp
  show ?thesis
    using authorize_sets_secure_cookie [OF h1 h2, of "[]"] by simp
qed

text \<open>
  Claim C6. The \<^verbatim>\<open>logout\<close> view returns the redirect to \<^verbatim>\<open>/\<close> on which the cookie
  \<^verbatim>\<open>ASB-AUTH\<close> is deleted, and leaves the list of outbound calls as it was: the provider is
  not told. A later request that carries no \<^verbatim>\<open>ASB-AUTH\<close> cookie is resolved by
  \<^verbatim>\<open>auth_info\<close> to the anonymous record, without any call.
\<close>

theorem logout_deletes_cookie_without_call:
  "logout req sent =
     (Inr \<lparr>content = Redirect ''/'' [], cookie_ops = [DeleteCookie ''ASB-AUTH'']\<rparr>, sent)
   \<and> (COOKIES req' ''ASB-AUTH'' = None \<longrightarrow>
        auth_info p fn req' kw sent' = fn req' anon_record kw sent'
        \<and> py_getitem anon_record ''anon'' = Inr (JBool True))"
  by (simp add: logout_def redirect_def delete_cookie_def auth_info_absent anon_record_anon)

theorem logout_deletes_cookie_without_call_witness:
  "logout (request_with_cookie ''t0ken'') [] =
     (Inr \<lparr>content = Redirect ''/'' [], cookie_ops = [DeleteCookie ''ASB-AUTH'']\<rparr>, [])
   \<and> some_webpage unreachable_provider request_without_cookie [] [] =
     (Inr \<lparr>content = Page ''some_webpage.html'' [(''user'', anon_record)], cookie_ops = []\<rparr>, [])"
  using logout_deletes_cookie_without_call [of "request_with_cookie ''t0ken''" "[]"
      request_without_cookie unreachable_provider "positional some_webpage_body" "[]" "[]"]
  by (simp add: request_without_cookie_def some_webpage_def positional_def
      some_webpage_body_def render_def)

section \<open>Who is anonymous\<close>

text \<open>
  Claim C7, as stated, fails: a provider that rejects the presented credential with
  status 401 and an error body leaves the caller with that body as identity record. It
  has no \<^verbatim>\<open>anon\<close> entry, so the caller is not treated as anonymous: the gate made by
  \<^verbatim>\<open>auth_required\<close> raises \<^verbatim>\<open>KeyError\<close> and does not send the caller to log in.
\<close>

theorem rejected_credential_not_anonymous:
  "COOKIES (request_with_cookie ''expired'') ''ASB-AUTH'' = Some ''expired''
   \<and> provider_rejects (answering_provider rejection JNull) ''expired''
   \<and> resolved_identity (answering_provider rejection JNull) (request_with_cookie ''expired'') =
       Inr (JObj [(''error'', JStr ''invalid token'')])
   \<and> auth_required (answering_provider rejection JNull) notebook_names some_webpage_body
       (request_with_cookie ''expired'') [] [] = (Inl (KeyError ''anon''), [info_call ''expired''])
   \<and> \<not> treated_anonymous (answering_provider rejection JNull) notebook_names
         (request_with_cookie ''expired'')"
  by (simp add: request_with_cookie_def provider_rejects_def answering_provider_def
      rejection_def treated_anonymous_def resolved_identity_def response_json_def
      gate_requires_login_iff auth_required_def auth_info_def requests_get_def
      positional_def check_auth_def info_call_def auth_mast_def)

text \<open>
  Claim C7, amended. The caller is treated as anonymous, that is, the gate made by
  \<^verbatim>\<open>auth_required\<close> does what its anonymous branch does and never invokes the handler, if
  and only if either the request has no \<^verbatim>\<open>ASB-AUTH\<close> cookie, or the provider's answer to
  the info call decodes to a record whose \<^verbatim>\<open>anon\<close> entry is truthy in Python's sense, as
  tested by \<^verbatim>\<open>if user["anon"]:\<close> (so \<^verbatim>\<open>True\<close>, a non-zero number or a non-empty string,
  the string \<^verbatim>\<open>"false"\<close> included). Otherwise the gate raises the exception of identity
  resolution or of \<^verbatim>\<open>user["anon"]\<close>, or invokes the handler. The outcome depends on the
  cookie and on the provider's answer alone; the status of the answer plays no part.
\<close>

theorem anonymous_iff_no_cookie_or_anon_entry:
  "(treated_anonymous p names req \<longleftrightarrow>
        COOKIES req ''ASB-AUTH'' = None
        \<or> (\<exists>c reply user a.
              COOKIES req ''ASB-AUTH'' = Some c
              \<and> info_answer p (info_call c) = Inr reply
              \<and> json_body reply = Some user
              \<and> py_getitem user ''anon'' = Inr a \<and> truthy a))
   \<and> auth_required p names fn req [] sent =
       (if treated_anonymous p names req
        then require_login names req (sent @ resolution_calls req)
        else (case resolved_identity p req of
                Inl e \<Rightarrow> (Inl e, sent @ resolution_calls req)
              | Inr user \<Rightarrow>
                  (case py_getitem user ''anon'' of
                     Inl e \<Rightarrow> (Inl e, sent @ resolution_calls req)
                   | Inr a \<Rightarrow> fn req user (sent @ resolution_calls req))))
   \<and> (COOKIES req ''ASB-AUTH'' = COOKIES req' ''ASB-AUTH'' \<longrightarrow>
        treated_anonymous p names req = treated_anonymous p names req')"
proof -
  have iff: "treated_anonymous p names r \<longleftrightarrow>
        COOKIES r ''ASB-AUTH'' = None
        \<or> (\<exists>c reply user a.
              COOKIES r ''ASB-AUTH'' = Some c
              \<and> info_answer p (info_call c) = Inr reply
              \<and> json_body reply = Some user
              \<and> py_getitem user ''anon'' = Inr a \<and> truthy a)" for r
  proof (cases "COOKIES r ''ASB-AUTH''")
    case None
    then show ?thesis
      by (simp add: treated_anonymous_def resolved_identity_def gate_requires_login_iff
          anon_record_def)
  next
    case (Some c)
    then show ?thesis
      by (auto simp add: treated_anonymous_def resolved_identity_def response_json_def
          gate_requires_login_iff split: sum.splits option.splits)
  qed
  have gate: "auth_required p names fn req [] sent =
       (if treated_anonymous p names req
        then require_login names req (sent @ resolution_calls req)
        else (case resolved_identity p req of
                Inl e \<Rightarrow> (Inl e, sent @ resolution_calls req)
              | Inr user \<Rightarrow>
                  (case py_getitem user ''anon'' of
                     Inl e \<Rightarrow> (Inl e, sent @ resolution_calls req)
                   | Inr a \<Rightarrow> fn req user (sent @ resolution_calls req))))"
  proof (cases "resolved_identity p req")
    case (Inl e)
    then show ?thesis
      by (simp add: auth_required_def auth_info_resolved treated_anonymous_def)
  next
    case (Inr user)
    have run: "auth_required p names fn req [] sent =
        check_auth names fn req user (sent @ resolution_calls req)"
      using Inr by (simp add: auth_required_def auth_info_resolved positional_def)
    show ?thesis
    proof (cases "py_getitem user ''anon''")
      case (Inl e)
      then show ?thesis
        using Inr run
        by (simp add: treated_anonymous_def gate_requires_login_iff check_auth_raises)
    next
      case a: (Inr a)
      show ?thesis
      proof (cases "truthy a")
        case True
        then show ?thesis
          using Inr run a
          by (simp add: treated_anonymous_def gate_requires_login_iff check_auth_truthy)
      next
        case False
        then show ?thesis
          using Inr run a
          by (simp add: treated_anonymous_def gate_requires_login_iff check_auth_falsy)
      qed
    qed
  qed
  have same: "COOKIES req ''ASB-AUTH'' = COOKIES req' ''ASB-AUTH'' \<longrightarrow>
        treated_anonymous p names req = treated_anonymous p names req'"
    by (simp add: iff)
  from iff [of req] gate same show ?thesis by blast
qed

theorem anonymous_iff_no_cookie_or_anon_entry_witness:
  "treated_anonymous unreachable_provider notebook_names request_without_cookie
   \<and> auth_required unreachable_provider notebook_names some_webpage_body
       request_without_cookie [] [] = (Inl (NameError ''os''), [])
   \<and> \<not> treated_anonymous
         (answering_provider \<lparr>status_code = 200, json_body = Some known_user\<rparr> JNull)
         notebook_names (request_with_cookie ''t0ken'')
   \<and> auth_required
         (answering_provider \<lparr>status_code = 200, json_body = Some known_user\<rparr> JNull)
         notebook_names some_webpage_body (request_with_cookie ''t0ken'') [] [] =
       (Inr \<lparr>content = Page ''some_webpage.html'' [(''user'', known_user)], cookie_ops = []\<rparr>,
        [info_call ''t0ken''])
   \<and> treated_anonymous unreachable_provider notebook_names callback_request"
proof -
  note t1 = anonymous_iff_no_cookie_or_anon_entry [of unreachable_provider notebook_names
        request_without_cookie some_webpage_body "[]" callback_request]
  note t2 = anonymous_iff_no_cookie_or_anon_entry [of
        "answering_provider \<lparr>status_code = 200, json_body = Some known_user\<rparr> JNull"
        notebook_names "request_with_cookie ''t0ken''" some_webpage_body "[]"
        request_without_cookie]
  have h0: "COOKIES request_without_cookie ''ASB-AUTH'' = None"
    by (simp add: request_without_cookie_def)
  have h1: "COOKIES request_without_cookie ''ASB-AUTH'' = COOKIES callback_request ''ASB-AUTH''"
    by (simp add: request_without_cookie_def callback_request_def)
  have a: "treated_anonymous unreachable_provider notebook_names request_without_cookie"
    using t1 [THEN conjunct1] h0 by blast
  have "auth_required unreachable_provider notebook_names some_webpage_body
       request_without_cookie [] [] =
       require_login notebook_names request_without_cookie
         ([] @ resolution_calls request_without_cookie)"
    using t1 [THEN conjunct2, THEN conjunct1] a by simp
  then have a': "auth_required unreachable_provider notebook_names some_webpage_body
       request_without_cookie [] [] = (Inl (NameError ''os''), [])"
    by (simp add: require_login_def load_global_def notebook_names_def resolution_calls_def h0)
  have h2: "COOKIES (request_with_cookie ''t0ken'') ''ASB-AUTH'' = Some ''t0ken''"
    by (simp add: request_with_cookie_def)
  have h3: "info_answer
      (answering_provider \<lparr>status_code = 200, json_body = Some known_user\<rparr> JNull) c =
      Inr \<lparr>status_code = 200, json_body = Some known_user\<rparr>" for c
    by (simp add: answering_provider_def)
  have h4: "py_getitem known_user ''anon'' = Inr (JBool False)"
    by (simp add: known_user_def)
  have b: "\<not> treated_anonymous
         (answering_provider \<lparr>status_code = 200, json_body = Some known_user\<rparr> JNull)
         notebook_names (request_with_cookie ''t0ken'')"
    using t2 [THEN conjunct1] by (simp add: h2 h3 h4)
  have h5: "resolved_identity
      (answering_provider \<lparr>status_code = 200, json_body = Some known_user\<rparr> JNull)
      (request_with_cookie ''t0ken'') = Inr known_user"
    by (simp add: resolved_identity_def h2 h3 response_json_def)
  have "auth_required
         (answering_provider \<lparr>status_code = 200, json_body = Some known_user\<rparr> JNull)
         notebook_names some_webpage_body (request_with_cookie ''t0ken'') [] [] =
       some_webpage_body (request_with_cookie ''t0ken'') known_user
         ([] @ resolution_calls (request_with_cookie ''t0ken''))"
    using t2 [THEN conjunct2, THEN conjunct1] b by (simp add: h5 h4)
  then have b': "auth_required
         (answering_provider \<lparr>status_code = 200, json_body = Some known_user\<rparr> JNull)
         notebook_names some_webpage_body (request_with_cookie ''t0ken'') [] [] =
       (Inr \<lparr>content = Page ''some_webpage.html'' [(''user'', known_user)], cookie_ops = []\<rparr>,
        [info_call ''t0ken''])"
    by (simp add: resolution_calls_def h2 some_webpage_body_def render_def)
  have c: "treated_anonymous unreachable_provider notebook_names callback_request"
    using t1 [THEN conjunct2, THEN conjunct2] h1 a by blast
  from a a' b b' c show ?thesis by simp
qed

end
